theory Spec2Isabelle
  imports Main
begin

section \<open>Domain types\<close>

text \<open>
  Timestamps (\<^verbatim>\<open>time.Time\<close>) are instants counted in microseconds since the Unix
  epoch, the resolution of the \<^verbatim>\<open>TIMESTAMP WITH TIME ZONE\<close> columns. The zero value of
  \<^verbatim>\<open>time.Time\<close> is January 1, year 1, 00:00 UTC.
\<close>

type_synonym time = int

definition zeroTime :: time where
  "zeroTime = - 62135596800000000"

text \<open>
  \<^verbatim>\<open>domain.PRStatus\<close> is a string type; the storage column is \<^verbatim>\<open>VARCHAR(50)\<close>, and the
  tests store and read back the values \<^verbatim>\<open>'OPEN'\<close>, \<^verbatim>\<open>'MERGED'\<close> and \<^verbatim>\<open>'CLOSED'\<close>.
\<close>

type_synonym PRStatus = string

definition PRStatusOpen :: PRStatus where
  "PRStatusOpen = ''OPEN''"

definition PRStatusMerged :: PRStatus where
  "PRStatusMerged = ''MERGED''"

text \<open>The sentinel errors of package \<^verbatim>\<open>domain\<close>; every other error value
  (\<^verbatim>\<open>errors.New\<close>, a driver error) is \<open>ErrOther\<close> with its message.\<close>

datatype error =
    ErrUserNotFound
  | ErrTeamNotFound
  | ErrTeamExists
  | ErrPRNotFound
  | ErrPRExists
  | ErrPRMerged
  | ErrReviewerNotAssigned
  | ErrNoCandidates
  | ErrOther string

record User =
  u_ID :: string
  u_Username :: string
  u_TeamID :: int
  u_TeamName :: string
  u_IsActive :: bool

record TeamMember =
  m_UserID :: string
  m_Username :: string
  m_IsActive :: bool

record Team =
  t_ID :: int
  t_Name :: string
  t_Members :: "TeamMember list"

record PullRequest =
  pr_ID :: string
  pr_Title :: string
  pr_AuthorID :: string
  pr_Status :: PRStatus
  pr_AssignedReviewers :: "string list"
  pr_CreatedAt :: "time option"
  pr_MergedAt :: "time option"

section \<open>Storage\<close>

text \<open>
  The tables of the migrations. \<^verbatim>\<open>pull_requests\<close> has primary key \<^verbatim>\<open>id\<close>, so it is a
  map from the id to the other columns. \<^verbatim>\<open>pr_reviewers\<close> is the list of its rows
  \<open>(pr_id, reviewer_id)\<close> in insertion order; its primary key is the pair.
  \<^verbatim>\<open>teams\<close> has a \<^verbatim>\<open>SERIAL\<close> id, whose sequence is \<open>teams_id_seq\<close> (the last value
  handed out). The repository functions below enforce the primary keys, the
  \<^verbatim>\<open>CHECK\<close> constraints and the foreign keys of the tables; the length limits of
  the \<^verbatim>\<open>VARCHAR\<close> columns and failures of the connection are outside the model.
\<close>

record user_row =
  ur_id :: string
  ur_username :: string
  ur_team_id :: int
  ur_is_active :: bool

record pr_row =
  row_title :: string
  row_author_id :: string
  row_status :: string
  row_created_at :: "time option"
  row_merged_at :: "time option"

record db =
  teams :: "(int \<times> string) list"
  teams_id_seq :: int
  users :: "user_row list"
  pull_requests :: "string \<rightharpoonup> pr_row"
  pr_reviewers :: "(string \<times> string) list"

definition user_exists :: "db \<Rightarrow> string \<Rightarrow> bool" where
  "user_exists d uid = (uid \<in> ur_id ` set (users d))"

definition reviewers_of :: "db \<Rightarrow> string \<Rightarrow> string list" where
  \<comment> \<open>\<^verbatim>\<open>SELECT reviewer_id FROM pr_reviewers WHERE pr_id = $1\<close>\<close>
  "reviewers_of d prID = map snd (filter (\<lambda>row. fst row = prID) (pr_reviewers d))"

section \<open>The pull-request repository\<close>

text \<open>
  One \<^verbatim>\<open>INSERT INTO pr_reviewers ... ON CONFLICT DO NOTHING\<close> per reviewer, inside the
  transaction of \<open>SavePR\<close>: an existing row is kept, a reviewer id that is not a
  user violates the foreign key and fails the statement.
\<close>

fun insertReviewers :: "db \<Rightarrow> string \<Rightarrow> string list \<Rightarrow> error + db" where
  "insertReviewers d prID [] = Inr d"
| "insertReviewers d prID (reviewerID # rest) =
     (if (prID, reviewerID) \<in> set (pr_reviewers d) then insertReviewers d prID rest
      else if \<not> user_exists d reviewerID then Inl (ErrOther ''pr_reviewers_reviewer_id_fkey'')
      else insertReviewers (d\<lparr>pr_reviewers := pr_reviewers d @ [(prID, reviewerID)]\<rparr>) prID rest)"

text \<open>
  The upsert of \<open>SavePR\<close>: on a new id the row is inserted (the author must be a
  user); on an existing id only \<open>title\<close>, \<open>status\<close> and \<open>merged_at\<close> are replaced.
  The table's \<^verbatim>\<open>CHECK (title <> '')\<close> applies to both.
\<close>

definition upsertPR :: "db \<Rightarrow> PullRequest \<Rightarrow> error + db" where
  "upsertPR d pr =
     (if pr_Title pr = [] then Inl (ErrOther ''pull_requests_title_check'')
      else
        (case pull_requests d (pr_ID pr) of
           None \<Rightarrow>
             (if \<not> user_exists d (pr_AuthorID pr)
              then Inl (ErrOther ''pull_requests_author_id_fkey'')
              else Inr (d\<lparr>pull_requests := (pull_requests d)(pr_ID pr \<mapsto>
                     \<lparr>row_title = pr_Title pr, row_author_id = pr_AuthorID pr,
                      row_status = pr_Status pr, row_created_at = pr_CreatedAt pr,
                      row_merged_at = pr_MergedAt pr\<rparr>)\<rparr>))
         | Some old \<Rightarrow>
             Inr (d\<lparr>pull_requests := (pull_requests d)(pr_ID pr \<mapsto>
                    old\<lparr>row_title := pr_Title pr, row_status := pr_Status pr,
                        row_merged_at := pr_MergedAt pr\<rparr>)\<rparr>)))"

text \<open>
  \<open>SavePR\<close> writes through the pointer it is given (\<open>CreatedAt\<close>), so it returns the
  record as the caller sees it afterwards. Any error rolls the transaction back: the
  store is the one before the call.
\<close>

definition SavePR :: "db \<Rightarrow> time \<Rightarrow> PullRequest \<Rightarrow> error option \<times> PullRequest \<times> db" where
  "SavePR d now pr0 =
     (let pr = (if pr_CreatedAt pr0 = None \<or> pr_CreatedAt pr0 = Some zeroTime
                then pr0\<lparr>pr_CreatedAt := Some now\<rparr> else pr0) in
      if pr_ID pr = [] then (Some (ErrOther ''ID should not be empty''), pr, d)
      else if pr_Status pr \<noteq> PRStatusMerged \<and> pr_Status pr \<noteq> PRStatusOpen
        then (Some (ErrOther ''Uncorrect status of pull request''), pr, d)
      else
        (case upsertPR d pr of
           Inl e \<Rightarrow> (Some e, pr, d)
         | Inr d1 \<Rightarrow>
             (case insertReviewers d1 (pr_ID pr) (pr_AssignedReviewers pr) of
                Inl e \<Rightarrow> (Some e, pr, d)
              | Inr d2 \<Rightarrow> (None, pr, d2))))"

definition pr_FindByID :: "db \<Rightarrow> string \<Rightarrow> error + PullRequest" where
  "pr_FindByID d prID =
     (case pull_requests d prID of
        None \<Rightarrow> Inl ErrPRNotFound
      | Some r \<Rightarrow>
          Inr \<lparr>pr_ID = prID, pr_Title = row_title r, pr_AuthorID = row_author_id r,
               pr_Status = row_status r, pr_AssignedReviewers = reviewers_of d prID,
               pr_CreatedAt = row_created_at r, pr_MergedAt = row_merged_at r\<rparr>)"

definition UpdateStatus :: "db \<Rightarrow> string \<Rightarrow> PRStatus \<Rightarrow> time option \<Rightarrow> error option \<times> db" where
  "UpdateStatus d prID status mergedAt =
     (let utcTime = (case mergedAt of None \<Rightarrow> zeroTime | Some t \<Rightarrow> t) in
      (case pull_requests d prID of
         None \<Rightarrow> (Some ErrPRNotFound, d)
       | Some r \<Rightarrow>
           (None, d\<lparr>pull_requests := (pull_requests d)(prID \<mapsto>
                      r\<lparr>row_status := status, row_merged_at := Some utcTime\<rparr>)\<rparr>)))"

text \<open>
  \<open>ReplaceReviewer\<close>: the \<^verbatim>\<open>DELETE\<close>, then a plain \<^verbatim>\<open>INSERT\<close> (a duplicate row or
  an unknown reviewer or pull request fails it), in one transaction.
\<close>

definition ReplaceReviewer :: "db \<Rightarrow> string \<Rightarrow> string \<Rightarrow> string \<Rightarrow> error option \<times> db" where
  "ReplaceReviewer d prID oldReviewerID newReviewerID =
     (let kept = filter (\<lambda>row. row \<noteq> (prID, oldReviewerID)) (pr_reviewers d);
          rows = length (pr_reviewers d) - length kept in
      if rows = 0 then (Some ErrReviewerNotAssigned, d)
      else if (prID, newReviewerID) \<in> set kept then (Some (ErrOther ''pr_reviewers_pkey''), d)
      else if pull_requests d prID = None then (Some (ErrOther ''pr_reviewers_pr_id_fkey''), d)
      else if \<not> user_exists d newReviewerID
        then (Some (ErrOther ''pr_reviewers_reviewer_id_fkey''), d)
      else (None, d\<lparr>pr_reviewers := kept @ [(prID, newReviewerID)]\<rparr>))"

section \<open>The user repository\<close>

text \<open>
  The use cases hold a \<^verbatim>\<open>user.UserRepository\<close>; they are modelled over any
  implementation of the three methods they call, each reading or writing the store.
  \<open>SaveUser\<close> takes a pointer to the user; it is taken to read it only, as the
  repository test does when it compares the stored row with the user it passed.
\<close>

record UserRepository =
  user_FindByID :: "db \<Rightarrow> string \<Rightarrow> error + User"
  user_FindActiveByTeamID :: "db \<Rightarrow> int \<Rightarrow> string \<Rightarrow> error + User list"
  user_SaveUser :: "db \<Rightarrow> User \<Rightarrow> error option \<times> db"

definition row2user :: "db \<Rightarrow> user_row \<Rightarrow> User" where
  "row2user d r =
     \<lparr>u_ID = ur_id r, u_Username = ur_username r, u_TeamID = ur_team_id r,
      u_TeamName = (case map_of (teams d) (ur_team_id r) of None \<Rightarrow> [] | Some n \<Rightarrow> n),
      u_IsActive = ur_is_active r\<rparr>"

text \<open>Modelled from the spec: \<^verbatim>\<open>FindUserByID(id) -> User | UserNotFound\<close>; the
  repository's \<^verbatim>\<open>FindByID\<close> is not among the sources.\<close>

definition spec_FindByID :: "db \<Rightarrow> string \<Rightarrow> error + User" where
  "spec_FindByID d userID =
     (case find (\<lambda>r. ur_id r = userID) (users d) of
        None \<Rightarrow> Inl ErrUserNotFound
      | Some r \<Rightarrow> Inr (row2user d r))"

text \<open>Modelled from the spec: the candidate pool, \<^verbatim>\<open>FindActiveTeamMates(teamID,
  excludeUserID)\<close>, is all users whose team id equals the target team and whose active
  flag is true, excluding the specified user id, as an ordered sequence; the
  repository's \<^verbatim>\<open>FindActiveByTeamID\<close> is not among the sources.\<close>

definition candidate_pool :: "db \<Rightarrow> int \<Rightarrow> string \<Rightarrow> user_row list" where
  "candidate_pool d teamID excludeUserID =
     filter (\<lambda>r. ur_team_id r = teamID \<and> ur_is_active r \<and> ur_id r \<noteq> excludeUserID) (users d)"


definition spec_FindActiveByTeamID :: "db \<Rightarrow> int \<Rightarrow> string \<Rightarrow> error + User list" where
  "spec_FindActiveByTeamID d teamID excludeUserID =
     Inr (map (row2user d) (candidate_pool d teamID excludeUserID))"

text \<open>Modelled from the spec: a user is stored under its caller-supplied unique id;
  the repository's \<^verbatim>\<open>SaveUser\<close> is not among the sources. Saving replaces the row of
  that id or adds one; the name must not be empty and the team must exist, as the
  \<^verbatim>\<open>users\<close> table demands.\<close>

definition spec_SaveUser :: "db \<Rightarrow> User \<Rightarrow> error option \<times> db" where
  "spec_SaveUser d u =
     (let r = \<lparr>ur_id = u_ID u, ur_username = u_Username u, ur_team_id = u_TeamID u,
               ur_is_active = u_IsActive u\<rparr> in
      if u_Username u = [] then (Some (ErrOther ''users_username_check''), d)
      else if u_TeamID u \<notin> fst ` set (teams d) then (Some (ErrOther ''users_team_id_fkey''), d)
      else if user_exists d (u_ID u)
        then (None, d\<lparr>users := map (\<lambda>x. if ur_id x = u_ID u then r else x) (users d)\<rparr>)
      else (None, d\<lparr>users := users d @ [r]\<rparr>))"

definition specUserRepo :: UserRepository where
  "specUserRepo =
     \<lparr>user_FindByID = spec_FindByID, user_FindActiveByTeamID = spec_FindActiveByTeamID,
      user_SaveUser = spec_SaveUser\<rparr>"

section \<open>The pull-request use case\<close>

text \<open>
  \<^verbatim>\<open>math/rand\<close>: the generator, once seeded, is the sequence \<open>rnd\<close> of its outputs;
  the \<open>k\<close>-th call \<^verbatim>\<open>rand.Intn(n)\<close> after the seeding yields a value below \<open>n\<close>.
\<close>

definition Intn :: "(nat \<Rightarrow> nat) \<Rightarrow> nat \<Rightarrow> nat \<Rightarrow> nat" where
  "Intn rnd k n = rnd k mod n"

text \<open>
  The loop \<^verbatim>\<open>for len(indexes) > 1 && indexes[0] == indexes[1]\<close>, which draws again
  until the two indexes differ. It need not end; \<open>None\<close> is the run that never leaves it.
  \<open>k\<close> counts the draws made so far.
\<close>

partial_function (option) redraw :: "(nat \<Rightarrow> nat) \<Rightarrow> nat \<Rightarrow> nat list \<Rightarrow> nat \<Rightarrow> nat list option" where
  "redraw rnd n indexes k =
     (if length indexes > 1 \<and> indexes ! 0 = indexes ! 1
      then redraw rnd n (indexes[1 := Intn rnd k n]) (Suc k)
      else Some indexes)"

declare redraw.simps [code]

definition autoAssignReviewers ::
  "UserRepository \<Rightarrow> db \<Rightarrow> (nat \<Rightarrow> nat) \<Rightarrow> int \<Rightarrow> string \<Rightarrow> (error + string list) option" where
  "autoAssignReviewers uc d rnd teamID excludeUserID =
     (case user_FindActiveByTeamID uc d teamID excludeUserID of
        Inl e \<Rightarrow> Some (Inl e)
      | Inr candidates \<Rightarrow>
          (if length candidates = 0 then Some (Inl ErrNoCandidates)
           else
             (let n = length candidates;
                  indexes0 = [Intn rnd 0 n];
                  indexes1 = (if n > 1 then indexes0 @ [Intn rnd 1 n] else indexes0);
                  k = (if n > 1 then 2 else 1)
              in (case redraw rnd n indexes1 k of
                    None \<Rightarrow> None
                  | Some indexes \<Rightarrow>
                      Some (Inr (map (\<lambda>i. u_ID (candidates ! i)) [0 ..< length indexes]))))))"

definition CreatePR ::
  "UserRepository \<Rightarrow> db \<Rightarrow> time \<Rightarrow> (nat \<Rightarrow> nat) \<Rightarrow> string \<Rightarrow> string \<Rightarrow> string
     \<Rightarrow> ((error + PullRequest) \<times> db) option" where
  "CreatePR uc d now rnd prID title authorID =
     (case user_FindByID uc d authorID of
        Inl e \<Rightarrow> Some (Inl ErrUserNotFound, d)
      | Inr author \<Rightarrow>
          (case autoAssignReviewers uc d rnd (u_TeamID author) authorID of
             None \<Rightarrow> None
           | Some (Inl e) \<Rightarrow> Some (Inl e, d)
           | Some (Inr reviewers) \<Rightarrow>
               (let pr = \<lparr>pr_ID = prID, pr_Title = title, pr_AuthorID = authorID,
                          pr_Status = PRStatusOpen, pr_AssignedReviewers = reviewers,
                          pr_CreatedAt = None, pr_MergedAt = None\<rparr>
                in (case SavePR d now pr of
                      (Some e, pr', d') \<Rightarrow> Some (Inl e, d')
                    | (None, pr', d') \<Rightarrow> Some (Inr pr', d')))))"

definition MergePR :: "db \<Rightarrow> time \<Rightarrow> string \<Rightarrow> (error + PullRequest) \<times> db" where
  "MergePR d now prID =
     (case pr_FindByID d prID of
        Inl e \<Rightarrow> (Inl e, d)
      | Inr pr \<Rightarrow>
          (if pr_Status pr = PRStatusMerged then (Inr pr, d)
           else
             (let pr' = pr\<lparr>pr_Status := PRStatusMerged, pr_MergedAt := Some now\<rparr>
              in (case UpdateStatus d prID PRStatusMerged (Some now) of
                    (Some e, d') \<Rightarrow> (Inl e, d')
                  | (None, d') \<Rightarrow> (Inr pr', d')))))"

definition selectRandomReviewer ::
  "UserRepository \<Rightarrow> db \<Rightarrow> (nat \<Rightarrow> nat) \<Rightarrow> PullRequest \<Rightarrow> int \<Rightarrow> string \<Rightarrow> error + string" where
  "selectRandomReviewer uc d rnd pr teamID excludeUserID =
     (case user_FindActiveByTeamID uc d teamID excludeUserID of
        Inl e \<Rightarrow> Inl e
      | Inr candidates \<Rightarrow>
          (let availableCandidates =
                 filter (\<lambda>candidate. u_ID candidate \<notin> set (pr_AssignedReviewers pr)) candidates
           in if length availableCandidates = 0 then Inl ErrNoCandidates
              else Inr (u_ID (availableCandidates ! Intn rnd 0 (length availableCandidates)))))"

definition ReassignReviewer ::
  "UserRepository \<Rightarrow> db \<Rightarrow> (nat \<Rightarrow> nat) \<Rightarrow> string \<Rightarrow> string \<Rightarrow> (error + string) \<times> db" where
  "ReassignReviewer uc d rnd prID oldReviewerID =
     (case pr_FindByID d prID of
        Inl e \<Rightarrow> (Inl e, d)
      | Inr pr \<Rightarrow>
          (if pr_Status pr = PRStatusMerged then (Inl ErrPRMerged, d)
           else if oldReviewerID \<notin> set (pr_AssignedReviewers pr)
             then (Inl ErrReviewerNotAssigned, d)
           else
             (case user_FindByID uc d oldReviewerID of
                Inl e \<Rightarrow> (Inl e, d)
              | Inr oldReviewer \<Rightarrow>
                  (case selectRandomReviewer uc d rnd pr (u_TeamID oldReviewer) oldReviewerID of
                     Inl e \<Rightarrow> (Inl e, d)
                   | Inr newReviewerID \<Rightarrow>
                       (case ReplaceReviewer d prID oldReviewerID newReviewerID of
                          (Some e, d') \<Rightarrow> (Inl e, d')
                        | (None, d') \<Rightarrow> (Inr newReviewerID, d'))))))"

section \<open>The team use case\<close>

text \<open>
  \<open>SaveTeam\<close>: \<^verbatim>\<open>INSERT INTO teams (name) VALUES ($1) RETURNING id\<close>. The sequence
  advances whether or not the row is kept; a name already present is the unique
  violation that becomes \<open>ErrTeamExists\<close>; the generated id is written into the team.
\<close>

definition SaveTeam :: "db \<Rightarrow> Team \<Rightarrow> error option \<times> Team \<times> db" where
  "SaveTeam d team =
     (let newID = teams_id_seq d + 1; d1 = d\<lparr>teams_id_seq := newID\<rparr> in
      if t_Name team = [] then (Some (ErrOther ''teams_name_check''), team, d1)
      else if t_Name team \<in> snd ` set (teams d) then (Some ErrTeamExists, team, d1)
      else (None, team\<lparr>t_ID := newID\<rparr>, d1\<lparr>teams := teams d @ [(newID, t_Name team)]\<rparr>))"

definition user2member :: "User \<Rightarrow> TeamMember" where
  "user2member u = \<lparr>m_UserID = u_ID u, m_Username = u_Username u, m_IsActive = u_IsActive u\<rparr>"

definition member2user :: "TeamMember \<Rightarrow> int \<Rightarrow> string \<Rightarrow> User" where
  "member2user m teamID teamName =
     \<lparr>u_ID = m_UserID m, u_Username = m_Username m, u_TeamID = teamID,
      u_TeamName = teamName, u_IsActive = m_IsActive m\<rparr>"

text \<open>
  The body of \<^verbatim>\<open>for _, member := range team.Members\<close>. The range expression is
  evaluated once, before the loop: the first argument is the members still to visit,
  taken from the slice as it was then, while \<open>team\<close> is the team the body appends to.
\<close>

fun saveMembers :: "UserRepository \<Rightarrow> TeamMember list \<Rightarrow> Team \<Rightarrow> db \<Rightarrow> (error + Team) \<times> db" where
  "saveMembers uc [] team d = (Inr team, d)"
| "saveMembers uc (member # rest) team d =
     (let user = member2user member (t_ID team) (t_Name team) in
      (case user_SaveUser uc d user of
         (Some e, d') \<Rightarrow> (Inl e, d')
       | (None, d') \<Rightarrow>
           saveMembers uc rest (team\<lparr>t_Members := t_Members team @ [user2member user]\<rparr>) d'))"

definition CreateTeam :: "UserRepository \<Rightarrow> db \<Rightarrow> Team \<Rightarrow> (error + Team) \<times> db" where
  "CreateTeam uc d team0 =
     (case SaveTeam d team0 of
        (Some e, team, d') \<Rightarrow> (Inl e, d')
      | (None, team, d') \<Rightarrow> saveMembers uc (t_Members team) team d')"

section \<open>Stored status, and the data of the tests\<close>


definition mkUser :: "string \<Rightarrow> string \<Rightarrow> int \<Rightarrow> bool \<Rightarrow> user_row" where
  "mkUser uid name teamID active =
     \<lparr>ur_id = uid, ur_username = name, ur_team_id = teamID, ur_is_active = active\<rparr>"

definition mkMember :: "string \<Rightarrow> string \<Rightarrow> bool \<Rightarrow> TeamMember" where
  "mkMember uid name active = \<lparr>m_UserID = uid, m_Username = name, m_IsActive = active\<rparr>"

text \<open>
  The teams and users of \<^verbatim>\<open>setupTestDB\<close> with the two extra users of the reassignment
  test and a team of one, and three stored pull requests: an open one with two
  reviewers, a merged one and a closed one.
\<close>

definition testDB :: db where
  "testDB =
     \<lparr>teams = [(1, ''backend-team''), (2, ''frontend-team''), (3, ''solo-team'')],
      teams_id_seq = 3,
      users =
        [mkUser ''user_1'' ''alice'' 1 True,
         mkUser ''user_2'' ''bob'' 1 False,
         mkUser ''user_3'' ''charlie'' 2 True,
         mkUser ''user_4'' ''dave'' 2 True,
         mkUser ''user_5'' ''tom'' 1 True,
         mkUser ''extra_user_1'' ''extra1'' 2 True,
         mkUser ''extra_user_2'' ''extra2'' 2 True,
         mkUser ''solo1'' ''solo'' 3 True],
      pull_requests = map_of
        [(''pr_open'', \<lparr>row_title = ''Open PR'', row_author_id = ''user_1'',
            row_status = ''OPEN'', row_created_at = Some 100, row_merged_at = None\<rparr>),
         (''pr_merged'', \<lparr>row_title = ''Merged PR'', row_author_id = ''user_1'',
            row_status = ''MERGED'', row_created_at = Some 100, row_merged_at = Some 200\<rparr>),
         (''pr_closed'', \<lparr>row_title = ''Closed PR'', row_author_id = ''user_1'',
            row_status = ''CLOSED'', row_created_at = Some 100, row_merged_at = None\<rparr>)],
      pr_reviewers =
        [(''pr_open'', ''user_3''), (''pr_open'', ''user_4''), (''pr_merged'', ''user_3'')]\<rparr>"

definition devopsTeam :: Team where
  "devopsTeam =
     \<lparr>t_ID = 0, t_Name = ''devops-team'',
      t_Members = [mkMember ''dev_user_1'' ''devops1'' True,
                   mkMember ''dev_user_2'' ''devops2'' True]\<rparr>"

text \<open>Two generators: one whose outputs count up from 0, one whose first outputs
  are 2 and 1.\<close>

definition rndUp :: "nat \<Rightarrow> nat" where
  "rndUp k = k"



section \<open>Auxiliary facts\<close>

subsection \<open>The team use case\<close>

lemma user2member_member2user: "user2member (member2user m teamID teamName) = m"
  by (simp add: user2member_def member2user_def)

lemma saveMembers_Inr:
  "saveMembers uc ms team d = (Inr team', d') \<Longrightarrow>
     t_Members team' = t_Members team @ ms \<and> t_ID team' = t_ID team \<and> t_Name team' = t_Name team"
proof (induction ms arbitrary: team d)
  case Nil
  then show ?case by simp
next
  case (Cons m ms)
  then show ?case
    by (auto simp: Let_def user2member_member2user split: prod.splits option.splits)
qed

subsection \<open>Selection of reviewers\<close>




lemma autoAssignReviewers_empty:
  "user_FindActiveByTeamID uc d teamID ex = Inr [] \<Longrightarrow>
     autoAssignReviewers uc d rnd teamID ex = Some (Inl ErrNoCandidates)"
  by (simp add: autoAssignReviewers_def)

subsection \<open>Saving a pull request\<close>

lemma insertReviewers_Inr:
  "insertReviewers d prID rs = Inr d' \<Longrightarrow>
     pull_requests d' = pull_requests d \<and> users d' = users d \<and> teams d' = teams d
     \<and> teams_id_seq d' = teams_id_seq d
     \<and> set (pr_reviewers d') = set (pr_reviewers d) \<union> {prID} \<times> set rs"
proof (induction d prID rs rule: insertReviewers.induct)
  case (1 d prID)
  then show ?case by simp
next
  case (2 d prID reviewerID rest)
  then show ?case
    by (auto simp: user_exists_def split: if_splits)
qed

lemma set_reviewers_of: "set (reviewers_of d prID) = {r. (prID, r) \<in> set (pr_reviewers d)}"
  by (force simp: reviewers_of_def)

lemma SavePR_None:
  assumes "SavePR d now pr0 = (None, pr, d')"
  shows "pr = pr0\<lparr>pr_CreatedAt := (if pr_CreatedAt pr0 = None \<or> pr_CreatedAt pr0 = Some zeroTime
                                     then Some now else pr_CreatedAt pr0)\<rparr>"
    and "\<And>p. p \<noteq> pr_ID pr0 \<Longrightarrow> pull_requests d' p = pull_requests d p"
    and "pull_requests d' (pr_ID pr0) =
           (case pull_requests d (pr_ID pr0) of
              None \<Rightarrow> Some \<lparr>row_title = pr_Title pr, row_author_id = pr_AuthorID pr,
                   row_status = pr_Status pr, row_created_at = pr_CreatedAt pr,
                   row_merged_at = pr_MergedAt pr\<rparr>
            | Some old \<Rightarrow> Some (old\<lparr>row_title := pr_Title pr0, row_status := pr_Status pr0,
                     row_merged_at := pr_MergedAt pr0\<rparr>))"
    and "set (reviewers_of d' (pr_ID pr0)) =
           set (reviewers_of d (pr_ID pr0)) \<union> set (pr_AssignedReviewers pr0)"
    and "pr_Status pr0 = PRStatusMerged \<or> pr_Status pr0 = PRStatusOpen"
proof -
  let ?pr = "if pr_CreatedAt pr0 = None \<or> pr_CreatedAt pr0 = Some zeroTime
             then pr0\<lparr>pr_CreatedAt := Some now\<rparr> else pr0"
  from assms have pr: "pr = ?pr"
    by (cases "pr_CreatedAt pr0 = None \<or> pr_CreatedAt pr0 = Some zeroTime")
       (auto simp: SavePR_def Let_def split: if_splits sum.splits)
  then show "pr = pr0\<lparr>pr_CreatedAt := (if pr_CreatedAt pr0 = None \<or> pr_CreatedAt pr0 = Some zeroTime
                                     then Some now else pr_CreatedAt pr0)\<rparr>"
    by simp
  from assms show st: "pr_Status pr0 = PRStatusMerged \<or> pr_Status pr0 = PRStatusOpen"
    by (auto simp: SavePR_def Let_def split: if_splits sum.splits)
  from assms pr obtain d1 where u: "upsertPR d pr = Inr d1"
    and i: "insertReviewers d1 (pr_ID pr) (pr_AssignedReviewers pr) = Inr d'"
    by (auto simp: SavePR_def Let_def split: if_splits sum.splits)
  have id: "pr_ID pr = pr_ID pr0" "pr_AssignedReviewers pr = pr_AssignedReviewers pr0"
    "pr_Title pr = pr_Title pr0" "pr_Status pr = pr_Status pr0" "pr_MergedAt pr = pr_MergedAt pr0"
    using pr by simp_all
  from u have d1: "pr_reviewers d1 = pr_reviewers d"
    and d1p: "\<And>p. p \<noteq> pr_ID pr0 \<Longrightarrow> pull_requests d1 p = pull_requests d p"
    and d1q: "pull_requests d1 (pr_ID pr0) =
           (case pull_requests d (pr_ID pr0) of
              None \<Rightarrow> Some \<lparr>row_title = pr_Title pr, row_author_id = pr_AuthorID pr,
                   row_status = pr_Status pr, row_created_at = pr_CreatedAt pr,
                   row_merged_at = pr_MergedAt pr\<rparr>
            | Some old \<Rightarrow> Some (old\<lparr>row_title := pr_Title pr0, row_status := pr_Status pr0,
                     row_merged_at := pr_MergedAt pr0\<rparr>))"
    unfolding upsertPR_def id by (auto split: if_splits option.splits)
  from insertReviewers_Inr [OF i] have d': "pull_requests d' = pull_requests d1"
    and r': "set (pr_reviewers d') = set (pr_reviewers d1) \<union> {pr_ID pr} \<times> set (pr_AssignedReviewers pr)"
    by simp_all
  from d' d1p show "\<And>p. p \<noteq> pr_ID pr0 \<Longrightarrow> pull_requests d' p = pull_requests d p" by simp
  from d' d1q show "pull_requests d' (pr_ID pr0) =
           (case pull_requests d (pr_ID pr0) of
              None \<Rightarrow> Some \<lparr>row_title = pr_Title pr, row_author_id = pr_AuthorID pr,
                   row_status = pr_Status pr, row_created_at = pr_CreatedAt pr,
                   row_merged_at = pr_MergedAt pr\<rparr>
            | Some old \<Rightarrow> Some (old\<lparr>row_title := pr_Title pr0, row_status := pr_Status pr0,
                     row_merged_at := pr_MergedAt pr0\<rparr>))" by simp
  from r' d1 id show "set (reviewers_of d' (pr_ID pr0)) =
           set (reviewers_of d (pr_ID pr0)) \<union> set (pr_AssignedReviewers pr0)"
    by (auto simp: set_reviewers_of)
qed


subsection \<open>Creating a pull request\<close>

lemma CreatePR_Inr:
  assumes "CreatePR uc d now rnd prID title authorID = Some (Inr pr, d')"
  shows "\<exists>author revs. user_FindByID uc d authorID = Inr author
           \<and> autoAssignReviewers uc d rnd (u_TeamID author) authorID = Some (Inr revs)
           \<and> SavePR d now \<lparr>pr_ID = prID, pr_Title = title, pr_AuthorID = authorID,
                          pr_Status = PRStatusOpen, pr_AssignedReviewers = revs,
                          pr_CreatedAt = None, pr_MergedAt = None\<rparr> = (None, pr, d')"
  using assms
  by (auto simp: CreatePR_def Let_def split: sum.splits option.splits prod.splits)



lemma fst_eqD: "fst x = a \<Longrightarrow> x = (a, snd x)"
  by (cases x) auto

subsection \<open>The user repository of the specification\<close>

lemma spec_repo_simps:
  "user_FindByID specUserRepo = spec_FindByID"
  "user_FindActiveByTeamID specUserRepo = spec_FindActiveByTeamID"
  "user_SaveUser specUserRepo = spec_SaveUser"
  by (simp_all add: specUserRepo_def)

lemma u_ID_row2user [simp]: "u_ID (row2user d r) = ur_id r"
  by (simp add: row2user_def)





subsection \<open>Merging\<close>

lemma MergePR_merged:
  "pr_FindByID d prID = Inr pr \<Longrightarrow> pr_Status pr = PRStatusMerged \<Longrightarrow>
     MergePR d now prID = (Inr pr, d)"
  by (simp add: MergePR_def)

lemma MergePR_not_merged:
  assumes "pr_FindByID d prID = Inr pr" and "pr_Status pr \<noteq> PRStatusMerged"
  shows "fst (MergePR d now prID) = Inr (pr\<lparr>pr_Status := PRStatusMerged, pr_MergedAt := Some now\<rparr>)"
    and "pr_FindByID (snd (MergePR d now prID)) prID =
           Inr (pr\<lparr>pr_Status := PRStatusMerged, pr_MergedAt := Some now\<rparr>)"
  using assms
  by (auto simp: MergePR_def pr_FindByID_def UpdateStatus_def Let_def reviewers_of_def
           split: option.splits)


subsection \<open>Replacing a reviewer\<close>



lemma ReplaceReviewer_assigned:
  assumes "(prID, old) \<in> set (pr_reviewers d)"
  shows "fst (ReplaceReviewer d prID old new) \<noteq> Some ErrReviewerNotAssigned"
proof -
  from assms have "length (filter (\<lambda>row. row \<noteq> (prID, old)) (pr_reviewers d)) < length (pr_reviewers d)"
    by (intro length_filter_less) auto
  then show ?thesis
    by (auto simp: ReplaceReviewer_def Let_def)
qed









subsection \<open>Creating over an existing id\<close>

lemma CreatePR_upsert:
  assumes "CreatePR uc d now rnd prID title authorID = Some (Inr pr, d')"
    and "pull_requests d prID = Some old"
  shows "pull_requests d' prID =
           Some (old\<lparr>row_title := title, row_status := PRStatusOpen, row_merged_at := None\<rparr>)
       \<and> set (reviewers_of d' prID) = set (reviewers_of d prID) \<union> set (pr_AssignedReviewers pr)"
proof -
  from CreatePR_Inr [OF assms(1)] obtain revs where
    s: "SavePR d now \<lparr>pr_ID = prID, pr_Title = title, pr_AuthorID = authorID,
                        pr_Status = PRStatusOpen, pr_AssignedReviewers = revs,
                        pr_CreatedAt = None, pr_MergedAt = None\<rparr> = (None, pr, d')"
    by blast
  from SavePR_None(1) [OF s] have "pr_AssignedReviewers pr = revs" by simp
  with SavePR_None(3,4) [OF s] assms(2) show ?thesis by simp
qed

subsection \<open>When the drawing loop ends\<close>

text \<open>
  The loop of \<open>autoAssignReviewers\<close> is left as soon as one draw differs from the
  first index; a pool of one needs no second draw.
\<close>

lemma redraw_single: "redraw rnd n [i0] k = Some [i0]"
  by (subst redraw.simps) simp

lemma redraw_differ: "i0 \<noteq> i1 \<Longrightarrow> redraw rnd n [i0, i1] k = Some [i0, i1]"
  by (subst redraw.simps) simp

lemma redraw_same: "redraw rnd n [i0, i0] k = redraw rnd n [i0, Intn rnd k n] (Suc k)"
  by (subst redraw.simps) simp

lemma redraw_returns:
  assumes "Intn rnd (k + j) n \<noteq> i0"
  shows "\<exists>i. i \<noteq> i0 \<and> redraw rnd n [i0, i1] k = Some [i0, i]"
  using assms
proof (induction j arbitrary: k i1)
  case 0
  then have "Intn rnd k n \<noteq> i0" by simp
  then have "redraw rnd n [i0, i0] k = Some [i0, Intn rnd k n]"
    by (simp add: redraw_same redraw_differ)
  with \<open>Intn rnd k n \<noteq> i0\<close> show ?case
    by (cases "i0 = i1") (auto simp: redraw_differ)
next
  case (Suc j)
  then have "Intn rnd (Suc k + j) n \<noteq> i0" by simp
  from Suc.IH [OF this, of "Intn rnd k n"] obtain i where
    "i \<noteq> i0" "redraw rnd n [i0, i0] k = Some [i0, i]"
    by (auto simp: redraw_same)
  then show ?case
    by (cases "i0 = i1") (auto simp: redraw_differ)
qed

lemma autoAssignReviewers_returns:
  assumes "user_FindActiveByTeamID uc d teamID ex = Inr cands"
    and "length cands \<le> 1 \<or> (\<exists>j. Intn rnd (2 + j) (length cands) \<noteq> Intn rnd 0 (length cands))"
  shows "autoAssignReviewers uc d rnd teamID ex \<noteq> None"
proof (cases "length cands \<le> 1")
  case True
  with assms(1) show ?thesis
    by (auto simp: autoAssignReviewers_def Let_def redraw_single)
next
  case False
  with assms(2) obtain j where "Intn rnd (2 + j) (length cands) \<noteq> Intn rnd 0 (length cands)"
    by blast
  from redraw_returns [OF this, of "Intn rnd 1 (length cands)"] False assms(1) show ?thesis
    by (auto simp: autoAssignReviewers_def Let_def)
qed


section \<open>The claims\<close>





text \<open>
  Claim C3. \<open>MergePR\<close> on a pull request that is already \<open>MERGED\<close> returns the stored
  record as it is and leaves the store untouched, so \<open>merged_at\<close> keeps its value. The
  first \<open>MergePR\<close> of an \<open>OPEN\<close> pull request returns and stores it with status
  \<open>MERGED\<close> and \<open>merged_at\<close> the time of that call; a second call, at any later time,
  returns that same record and changes nothing.
\<close>

theorem MergePR_idempotent:
  "(pr_FindByID d prID = Inr pr \<and> pr_Status pr = PRStatusMerged
      \<longrightarrow> MergePR d now prID = (Inr pr, d))
   \<and> (pr_FindByID d prID = Inr pr \<and> pr_Status pr = PRStatusOpen
      \<longrightarrow> fst (MergePR d now prID) = Inr (pr\<lparr>pr_Status := PRStatusMerged, pr_MergedAt := Some now\<rparr>)
        \<and> pr_FindByID (snd (MergePR d now prID)) prID =
            Inr (pr\<lparr>pr_Status := PRStatusMerged, pr_MergedAt := Some now\<rparr>)
        \<and> MergePR (snd (MergePR d now prID)) later prID =
            (Inr (pr\<lparr>pr_Status := PRStatusMerged, pr_MergedAt := Some now\<rparr>),
             snd (MergePR d now prID)))"
proof (intro conjI impI)
  assume "pr_FindByID d prID = Inr pr \<and> pr_Status pr = PRStatusMerged"
  then show "MergePR d now prID = (Inr pr, d)"
    by (simp add: MergePR_merged)
next
  let ?m = "pr\<lparr>pr_Status := PRStatusMerged, pr_MergedAt := Some now\<rparr>"
  assume a: "pr_FindByID d prID = Inr pr \<and> pr_Status pr = PRStatusOpen"
  then have f: "pr_FindByID d prID = Inr pr" and s: "pr_Status pr \<noteq> PRStatusMerged"
    by (simp_all add: PRStatusOpen_def PRStatusMerged_def)
  show 1: "fst (MergePR d now prID) = Inr ?m"
    by (rule MergePR_not_merged(1) [OF f s])
  show 2: "pr_FindByID (snd (MergePR d now prID)) prID = Inr ?m"
    by (rule MergePR_not_merged(2) [OF f s])
  show "MergePR (snd (MergePR d now prID)) later prID = (Inr ?m, snd (MergePR d now prID))"
    by (rule MergePR_merged [OF 2]) simp
qed

theorem MergePR_idempotent_witness:
  "pr_FindByID testDB ''pr_merged'' =
     Inr \<lparr>pr_ID = ''pr_merged'', pr_Title = ''Merged PR'', pr_AuthorID = ''user_1'',
          pr_Status = PRStatusMerged, pr_AssignedReviewers = [''user_3''],
          pr_CreatedAt = Some 100, pr_MergedAt = Some 200\<rparr>
   \<and> MergePR testDB 1000 ''pr_merged'' =
       (Inr \<lparr>pr_ID = ''pr_merged'', pr_Title = ''Merged PR'', pr_AuthorID = ''user_1'',
             pr_Status = PRStatusMerged, pr_AssignedReviewers = [''user_3''],
             pr_CreatedAt = Some 100, pr_MergedAt = Some 200\<rparr>, testDB)
   \<and> pr_FindByID testDB ''pr_open'' =
       Inr \<lparr>pr_ID = ''pr_open'', pr_Title = ''Open PR'', pr_AuthorID = ''user_1'',
            pr_Status = PRStatusOpen, pr_AssignedReviewers = [''user_3'', ''user_4''],
            pr_CreatedAt = Some 100, pr_MergedAt = None\<rparr>
   \<and> fst (MergePR testDB 1000 ''pr_open'') =
       Inr \<lparr>pr_ID = ''pr_open'', pr_Title = ''Open PR'', pr_AuthorID = ''user_1'',
            pr_Status = PRStatusMerged, pr_AssignedReviewers = [''user_3'', ''user_4''],
            pr_CreatedAt = Some 100, pr_MergedAt = Some 1000\<rparr>
   \<and> fst (MergePR (snd (MergePR testDB 1000 ''pr_open'')) 2000 ''pr_open'') =
       Inr \<lparr>pr_ID = ''pr_open'', pr_Title = ''Open PR'', pr_AuthorID = ''user_1'',
            pr_Status = PRStatusMerged, pr_AssignedReviewers = [''user_3'', ''user_4''],
            pr_CreatedAt = Some 100, pr_MergedAt = Some 1000\<rparr>"
proof -
  let ?pm = "\<lparr>pr_ID = ''pr_merged'', pr_Title = ''Merged PR'', pr_AuthorID = ''user_1'',
          pr_Status = PRStatusMerged, pr_AssignedReviewers = [''user_3''],
          pr_CreatedAt = Some 100, pr_MergedAt = Some 200\<rparr>"
  let ?po = "\<lparr>pr_ID = ''pr_open'', pr_Title = ''Open PR'', pr_AuthorID = ''user_1'',
            pr_Status = PRStatusOpen, pr_AssignedReviewers = [''user_3'', ''user_4''],
            pr_CreatedAt = Some 100, pr_MergedAt = None\<rparr>"
  have fm: "pr_FindByID testDB ''pr_merged'' = Inr ?pm"
    by code_simp
  have fo: "pr_FindByID testDB ''pr_open'' = Inr ?po"
    by code_simp
  from MergePR_idempotent [of testDB "''pr_merged''" ?pm 1000] fm
  have m: "MergePR testDB 1000 ''pr_merged'' = (Inr ?pm, testDB)"
    by simp
  from MergePR_idempotent [of testDB "''pr_open''" ?po 1000 2000] fo
  have o: "fst (MergePR testDB 1000 ''pr_open'') =
             Inr (?po\<lparr>pr_Status := PRStatusMerged, pr_MergedAt := Some 1000\<rparr>)
         \<and> fst (MergePR (snd (MergePR testDB 1000 ''pr_open'')) 2000 ''pr_open'') =
             Inr (?po\<lparr>pr_Status := PRStatusMerged, pr_MergedAt := Some 1000\<rparr>)"
    by simp
  from fm m fo o show ?thesis
    by simp
qed



text \<open>
  Claim C5. \<open>ReassignReviewer\<close> checks in this order, for every user repository: an
  unknown pull request fails with \<open>ErrPRNotFound\<close>; a stored one whose status is
  \<open>MERGED\<close> fails with \<open>ErrPRMerged\<close>, whatever the reviewer given; a stored one that
  is not merged and does not have the given reviewer assigned fails with
  \<open>ErrReviewerNotAssigned\<close>. Each of these leaves the store as it was. Conversely,
  when the user repository itself never reports \<open>ErrReviewerNotAssigned\<close>, that error
  comes out only for a stored, not merged pull request without the given reviewer.
\<close>

theorem ReassignReviewer_precondition_order:
  "(pr_FindByID d prID = Inl e
      \<longrightarrow> e = ErrPRNotFound \<and> ReassignReviewer uc d rnd prID old = (Inl ErrPRNotFound, d))
   \<and> (pr_FindByID d prID = Inr pr \<and> pr_Status pr = PRStatusMerged
      \<longrightarrow> ReassignReviewer uc d rnd prID old = (Inl ErrPRMerged, d))
   \<and> (pr_FindByID d prID = Inr pr \<and> pr_Status pr \<noteq> PRStatusMerged
        \<and> old \<notin> set (pr_AssignedReviewers pr)
      \<longrightarrow> ReassignReviewer uc d rnd prID old = (Inl ErrReviewerNotAssigned, d))
   \<and> ((\<forall>u. user_FindByID uc d u \<noteq> Inl ErrReviewerNotAssigned)
        \<and> (\<forall>t u. user_FindActiveByTeamID uc d t u \<noteq> Inl ErrReviewerNotAssigned)
        \<and> fst (ReassignReviewer uc d rnd prID old) = Inl ErrReviewerNotAssigned
      \<longrightarrow> (\<exists>p. pr_FindByID d prID = Inr p \<and> pr_Status p \<noteq> PRStatusMerged
                \<and> old \<notin> set (pr_AssignedReviewers p)))"
proof -
  have missing: "e = ErrPRNotFound \<and> ReassignReviewer uc d rnd prID old = (Inl ErrPRNotFound, d)"
    if "pr_FindByID d prID = Inl e"
    using that by (auto simp: ReassignReviewer_def pr_FindByID_def split: option.splits)
  have merged: "ReassignReviewer uc d rnd prID old = (Inl ErrPRMerged, d)"
    if "pr_FindByID d prID = Inr pr \<and> pr_Status pr = PRStatusMerged"
    using that by (simp add: ReassignReviewer_def)
  have absent: "ReassignReviewer uc d rnd prID old = (Inl ErrReviewerNotAssigned, d)"
    if "pr_FindByID d prID = Inr pr \<and> pr_Status pr \<noteq> PRStatusMerged
        \<and> old \<notin> set (pr_AssignedReviewers pr)"
    using that by (simp add: ReassignReviewer_def)
  have only: "\<exists>p. pr_FindByID d prID = Inr p \<and> pr_Status p \<noteq> PRStatusMerged
                \<and> old \<notin> set (pr_AssignedReviewers p)"
    if a: "(\<forall>u. user_FindByID uc d u \<noteq> Inl ErrReviewerNotAssigned)
        \<and> (\<forall>t u. user_FindActiveByTeamID uc d t u \<noteq> Inl ErrReviewerNotAssigned)
        \<and> fst (ReassignReviewer uc d rnd prID old) = Inl ErrReviewerNotAssigned"
  proof -
  from a have u: "\<And>u. user_FindByID uc d u \<noteq> Inl ErrReviewerNotAssigned"
    and c: "\<And>t u. user_FindActiveByTeamID uc d t u \<noteq> Inl ErrReviewerNotAssigned"
    and r: "fst (ReassignReviewer uc d rnd prID old) = Inl ErrReviewerNotAssigned"
    by simp_all
  show ?thesis
  proof (cases "pr_FindByID d prID")
    case (Inl e)
    with r show ?thesis
      by (auto simp: ReassignReviewer_def pr_FindByID_def split: option.splits)
  next
    case (Inr p)
    show ?thesis
    proof (cases "pr_Status p = PRStatusMerged \<or> old \<notin> set (pr_AssignedReviewers p)")
      case True
      with Inr r show ?thesis
        by (auto simp: ReassignReviewer_def)
    next
      case False
      with Inr have "(prID, old) \<in> set (pr_reviewers d)"
        by (auto simp: pr_FindByID_def set_reviewers_of split: option.splits)
      then have rr: "\<And>new. fst (ReplaceReviewer d prID old new) \<noteq> Some ErrReviewerNotAssigned"
        by (rule ReplaceReviewer_assigned)
      have sel: "selectRandomReviewer uc d rnd p t old \<noteq> Inl ErrReviewerNotAssigned" for t
        using c [of t old]
        by (auto simp: selectRandomReviewer_def Let_def split: sum.splits)
      have False
      proof (cases "user_FindByID uc d old")
        case (Inl e)
        with r Inr False u [of old] show False
          by (simp add: ReassignReviewer_def)
      next
        case oldU: (Inr oldReviewer)
        show False
        proof (cases "selectRandomReviewer uc d rnd p (u_TeamID oldReviewer) old")
          case (Inl e)
          with r Inr False oldU sel [of "u_TeamID oldReviewer"] show False
            by (simp add: ReassignReviewer_def)
        next
          case new: (Inr newReviewerID)
          obtain res d' where rep: "ReplaceReviewer d prID old newReviewerID = (res, d')"
            by (cases "ReplaceReviewer d prID old newReviewerID")
          with r Inr False oldU new rr [of newReviewerID] show False
            by (cases res) (simp_all add: ReassignReviewer_def)
        qed
      qed
      then show ?thesis ..
    qed
  qed
  qed
  from missing merged absent only show ?thesis by blast
qed

theorem ReassignReviewer_precondition_order_witness:
  "pr_FindByID testDB ''pr_unknown'' = Inl ErrPRNotFound
   \<and> ReassignReviewer specUserRepo testDB rndUp ''pr_unknown'' ''user_3'' = (Inl ErrPRNotFound, testDB)
   \<and> pr_FindByID testDB ''pr_merged'' =
       Inr \<lparr>pr_ID = ''pr_merged'', pr_Title = ''Merged PR'', pr_AuthorID = ''user_1'',
            pr_Status = PRStatusMerged, pr_AssignedReviewers = [''user_3''],
            pr_CreatedAt = Some 100, pr_MergedAt = Some 200\<rparr>
   \<and> ReassignReviewer specUserRepo testDB rndUp ''pr_merged'' ''user_3'' = (Inl ErrPRMerged, testDB)
   \<and> ReassignReviewer specUserRepo testDB rndUp ''pr_merged'' ''user_4'' = (Inl ErrPRMerged, testDB)
   \<and> pr_FindByID testDB ''pr_open'' =
       Inr \<lparr>pr_ID = ''pr_open'', pr_Title = ''Open PR'', pr_AuthorID = ''user_1'',
            pr_Status = PRStatusOpen, pr_AssignedReviewers = [''user_3'', ''user_4''],
            pr_CreatedAt = Some 100, pr_MergedAt = None\<rparr>
   \<and> PRStatusOpen \<noteq> PRStatusMerged
   \<and> ReassignReviewer specUserRepo testDB rndUp ''pr_open'' ''user_1'' =
       (Inl ErrReviewerNotAssigned, testDB)
   \<and> (\<exists>p. pr_FindByID testDB ''pr_open'' = Inr p \<and> pr_Status p \<noteq> PRStatusMerged
          \<and> ''user_1'' \<notin> set (pr_AssignedReviewers p))"
proof -
  let ?pm = "\<lparr>pr_ID = ''pr_merged'', pr_Title = ''Merged PR'', pr_AuthorID = ''user_1'',
          pr_Status = PRStatusMerged, pr_AssignedReviewers = [''user_3''],
          pr_CreatedAt = Some 100, pr_MergedAt = Some 200\<rparr>"
  let ?po = "\<lparr>pr_ID = ''pr_open'', pr_Title = ''Open PR'', pr_AuthorID = ''user_1'',
            pr_Status = PRStatusOpen, pr_AssignedReviewers = [''user_3'', ''user_4''],
            pr_CreatedAt = Some 100, pr_MergedAt = None\<rparr>"
  have fu: "pr_FindByID testDB ''pr_unknown'' = Inl ErrPRNotFound"
    by code_simp
  have fm: "pr_FindByID testDB ''pr_merged'' = Inr ?pm"
    by code_simp
  have fo: "pr_FindByID testDB ''pr_open'' = Inr ?po"
    by code_simp
  have om: "PRStatusOpen \<noteq> PRStatusMerged"
    by code_simp
  have nou: "\<forall>u. user_FindByID specUserRepo testDB u \<noteq> Inl ErrReviewerNotAssigned"
    by (simp add: spec_repo_simps spec_FindByID_def split: option.splits)
  have noc: "\<forall>t u. user_FindActiveByTeamID specUserRepo testDB t u \<noteq> Inl ErrReviewerNotAssigned"
    by (simp add: spec_repo_simps spec_FindActiveByTeamID_def)
  from ReassignReviewer_precondition_order
         [where d = testDB and prID = "''pr_unknown''" and e = ErrPRNotFound and uc = specUserRepo
            and rnd = rndUp and old = "''user_3''"] fu
  have 1: "ReassignReviewer specUserRepo testDB rndUp ''pr_unknown'' ''user_3'' = (Inl ErrPRNotFound, testDB)"
    by simp
  from ReassignReviewer_precondition_order
         [where d = testDB and prID = "''pr_merged''" and pr = ?pm and uc = specUserRepo
            and rnd = rndUp and old = "''user_3''"] fm
  have 2: "ReassignReviewer specUserRepo testDB rndUp ''pr_merged'' ''user_3'' = (Inl ErrPRMerged, testDB)"
    by simp
  from ReassignReviewer_precondition_order
         [where d = testDB and prID = "''pr_merged''" and pr = ?pm and uc = specUserRepo
            and rnd = rndUp and old = "''user_4''"] fm
  have 3: "ReassignReviewer specUserRepo testDB rndUp ''pr_merged'' ''user_4'' = (Inl ErrPRMerged, testDB)"
    by simp
  from ReassignReviewer_precondition_order
         [where d = testDB and prID = "''pr_open''" and pr = ?po and uc = specUserRepo
            and rnd = rndUp and old = "''user_1''"] fo om
  have 4: "ReassignReviewer specUserRepo testDB rndUp ''pr_open'' ''user_1'' = (Inl ErrReviewerNotAssigned, testDB)"
    by simp
  from 4 nou noc ReassignReviewer_precondition_order
         [where d = testDB and prID = "''pr_open''" and pr = ?po and uc = specUserRepo
            and rnd = rndUp and old = "''user_1''"]
  have 5: "\<exists>p. pr_FindByID testDB ''pr_open'' = Inr p \<and> pr_Status p \<noteq> PRStatusMerged
                \<and> ''user_1'' \<notin> set (pr_AssignedReviewers p)"
    by simp
  from fu 1 fm 2 3 fo om 4 5 show ?thesis
    by (intro conjI)
qed









text \<open>
  Claim C10. A successful \<open>CreateTeam\<close> returns a team whose member list is the
  supplied list followed by itself: each supplied member occurs twice as often as it
  was supplied, and the length is doubled. This holds for every user repository.
\<close>

theorem CreateTeam_members_twice:
  assumes "CreateTeam uc d team = (Inr team', d')"
  shows "t_Members team' = t_Members team @ t_Members team
       \<and> length (t_Members team') = 2 * length (t_Members team)
       \<and> (\<forall>m. count_list (t_Members team') m = 2 * count_list (t_Members team) m)"
proof -
  from assms obtain team1 d1 where st: "SaveTeam d team = (None, team1, d1)"
    and sm: "saveMembers uc (t_Members team1) team1 d1 = (Inr team', d')"
    by (auto simp: CreateTeam_def split: prod.splits option.splits)
  from st have m1: "t_Members team1 = t_Members team"
    by (auto simp: SaveTeam_def Let_def split: if_splits)
  from saveMembers_Inr [OF sm] m1 have "t_Members team' = t_Members team @ t_Members team"
    by simp
  then show ?thesis by simp
qed

theorem CreateTeam_members_twice_witness:
  "fst (CreateTeam specUserRepo testDB devopsTeam) =
     Inr \<lparr>t_ID = 4, t_Name = ''devops-team'',
          t_Members = [mkMember ''dev_user_1'' ''devops1'' True, mkMember ''dev_user_2'' ''devops2'' True,
                       mkMember ''dev_user_1'' ''devops1'' True, mkMember ''dev_user_2'' ''devops2'' True]\<rparr>
   \<and> length (t_Members devopsTeam) = 2
   \<and> count_list [mkMember ''dev_user_1'' ''devops1'' True, mkMember ''dev_user_2'' ''devops2'' True,
                 mkMember ''dev_user_1'' ''devops1'' True, mkMember ''dev_user_2'' ''devops2'' True]
        (mkMember ''dev_user_2'' ''devops2'' True) = 2 * count_list (t_Members devopsTeam) (mkMember ''dev_user_2'' ''devops2'' True)"
proof -
  have run: "fst (CreateTeam specUserRepo testDB devopsTeam) =
     Inr \<lparr>t_ID = 4, t_Name = ''devops-team'',
          t_Members = [mkMember ''dev_user_1'' ''devops1'' True, mkMember ''dev_user_2'' ''devops2'' True,
                       mkMember ''dev_user_1'' ''devops1'' True, mkMember ''dev_user_2'' ''devops2'' True]\<rparr>"
    by code_simp
  have len: "length (t_Members devopsTeam) = 2"
    by (simp add: devopsTeam_def)
  from CreateTeam_members_twice [OF fst_eqD [OF run]] run len show ?thesis
    by simp
qed

end
